theory Spec2Isabelle
  imports Main
begin

section \<open>JavaScript values and the JSON built-ins\<close>

text \<open>
  The notebook model keeps its structured attributes (tags, kernelspec, language info,
  user metadata) as JSON text and converts with \<^verbatim>\<open>JSON.stringify\<close> and
  \<^verbatim>\<open>JSON.parse\<close>. Values are modelled by the datatype \<open>json\<close>: numbers are
  integers written in decimal (counts and format versions; fractions and exponents are
  outside the model), strings are lists of 8-bit code units, an object is the list of its
  own properties in enumeration order. The value \<^verbatim>\<open>undefined\<close> is not a JSON value and
  is not a member of \<open>json\<close>.

  A thrown exception is a value of type \<open>error\<close>: \<open>Error msg\<close> for
  \<^verbatim>\<open>throw Error(msg)\<close>, \<open>TypeError\<close> for a property access on
  \<^verbatim>\<open>null\<close>, \<open>SyntaxError\<close> for a text \<^verbatim>\<open>JSON.parse\<close> rejects.
\<close>

datatype error = Error string | TypeError | SyntaxError

definition then_do :: "error + 'a \<Rightarrow> ('a \<Rightarrow> error + 'b) \<Rightarrow> error + 'b" where
  "then_do r f = (case r of Inl e \<Rightarrow> Inl e | Inr x \<Rightarrow> f x)"

subsection \<open>JSON values\<close>

datatype json =
    JNull
  | JBool bool
  | JNum int
  | JStr string
  | JArr "json list"
  | JObj "(string \<times> json) list"

subsection \<open>\<^verbatim>\<open>JSON.stringify\<close>\<close>

text \<open>
  The serializer writes the compact text \<^verbatim>\<open>JSON.stringify(value)\<close> produces when it
  is called with one argument: no white space, a number in decimal, a string in double
  quotes with the quote, the backslash and the control characters below U+0020 escaped.
\<close>

definition digit_char :: "nat \<Rightarrow> char" where
  "digit_char d = char_of (48 + d)"

function digits :: "nat \<Rightarrow> string" where
  "digits n = (if n < 10 then [digit_char n] else digits (n div 10) @ [digit_char (n mod 10)])"
  by pat_completeness auto
termination
  by (relation "measure id") auto

declare digits.simps [simp del]

definition number_text :: "int \<Rightarrow> string" where
  "number_text i = (if i < 0 then CHR ''-'' # digits (nat (- i)) else digits (nat i))"

definition hex_char :: "nat \<Rightarrow> char" where
  "hex_char d = (if d < 10 then char_of (48 + d) else char_of (87 + d))"

definition escape_char :: "char \<Rightarrow> string" where
  "escape_char c =
     (if c = CHR 0x22 then [CHR 0x5C, CHR 0x22]
      else if c = CHR 0x5C then [CHR 0x5C, CHR 0x5C]
      else if c = CHR 0x08 then [CHR 0x5C, CHR ''b'']
      else if c = CHR 0x0C then [CHR 0x5C, CHR ''f'']
      else if c = CHR 0x0A then [CHR 0x5C, CHR ''n'']
      else if c = CHR 0x0D then [CHR 0x5C, CHR ''r'']
      else if c = CHR 0x09 then [CHR 0x5C, CHR ''t'']
      else if (of_char c :: nat) < 32
        then [CHR 0x5C, CHR ''u'', CHR ''0'', CHR ''0'',
              hex_char (of_char c div 16), hex_char (of_char c mod 16)]
      else [c])"

definition quote :: "string \<Rightarrow> string" where
  "quote s = CHR 0x22 # concat (map escape_char s) @ [CHR 0x22]"

fun join :: "string \<Rightarrow> string list \<Rightarrow> string" where
  "join sep [] = []"
| "join sep [x] = x"
| "join sep (x # y # ys) = x @ sep @ join sep (y # ys)"

fun JSON_stringify :: "json \<Rightarrow> string" where
  "JSON_stringify JNull = ''null''"
| "JSON_stringify (JBool b) = (if b then ''true'' else ''false'')"
| "JSON_stringify (JNum i) = number_text i"
| "JSON_stringify (JStr s) = quote s"
| "JSON_stringify (JArr xs) = ''['' @ join '','' (map JSON_stringify xs) @ '']''"
| "JSON_stringify (JObj ms) =
     ''{'' @ join '','' (map (\<lambda>(k, v). quote k @ '':'' @ JSON_stringify v) ms) @ ''}''"

definition member_text :: "string \<times> json \<Rightarrow> string" where
  "member_text = (\<lambda>(k, v). quote k @ '':'' @ JSON_stringify v)"

subsection \<open>\<^verbatim>\<open>JSON.parse\<close>\<close>

text \<open>
  The parser is a recursive descent over the text. It follows the JSON grammar on
  compact texts: the three literals, integers without leading zeros, strings with the
  escapes of the grammar (a \<^verbatim>\<open>\u\<close> escape must name a code unit below 256 to stay
  inside \<open>char\<close>), arrays and objects without a trailing comma. The recursion on nested
  values is bounded by a counter that \<open>JSON_parse\<close> starts at the length of the text;
  a text that is rejected, or that has characters left after the value, is a
  \<open>SyntaxError\<close>.
\<close>

definition is_digit :: "char \<Rightarrow> bool" where
  "is_digit c = (48 \<le> (of_char c :: nat) \<and> (of_char c :: nat) \<le> 57)"

definition digit_val :: "char \<Rightarrow> nat" where
  "digit_val c = of_char c - 48"

definition digits_val :: "string \<Rightarrow> nat" where
  "digits_val ds = foldl (\<lambda>a c. 10 * a + digit_val c) 0 ds"

definition parse_number :: "string \<Rightarrow> (json \<times> string) option" where
  "parse_number s =
     (let neg = (case s of [] \<Rightarrow> False | c # _ \<Rightarrow> c = CHR ''-'');
          t = (if neg then tl s else s);
          ds = takeWhile is_digit t;
          r = dropWhile is_digit t
      in if ds = [] \<or> (hd ds = CHR ''0'' \<and> 1 < length ds) then None
         else Some (JNum (if neg then - int (digits_val ds) else int (digits_val ds)), r))"

definition hex_val :: "char \<Rightarrow> nat option" where
  "hex_val c =
     (let n = (of_char c :: nat)
      in if 48 \<le> n \<and> n \<le> 57 then Some (n - 48)
         else if 97 \<le> n \<and> n \<le> 102 then Some (n - 87)
         else if 65 \<le> n \<and> n \<le> 70 then Some (n - 55)
         else None)"

definition unescape :: "char \<Rightarrow> char option" where
  "unescape e =
     (if e = CHR 0x22 then Some (CHR 0x22)
      else if e = CHR 0x5C then Some (CHR 0x5C)
      else if e = CHR ''/'' then Some (CHR ''/'')
      else if e = CHR ''b'' then Some (CHR 0x08)
      else if e = CHR ''f'' then Some (CHR 0x0C)
      else if e = CHR ''n'' then Some (CHR 0x0A)
      else if e = CHR ''r'' then Some (CHR 0x0D)
      else if e = CHR ''t'' then Some (CHR 0x09)
      else None)"

definition unicode_escape :: "string \<Rightarrow> char option" where
  "unicode_escape hs =
     (case map hex_val hs of
        [Some a, Some b, Some c, Some d] \<Rightarrow>
          if a = 0 \<and> b = 0 then Some (char_of (16 * c + d)) else None
      | _ \<Rightarrow> None)"

function parse_chars :: "string \<Rightarrow> (string \<times> string) option" where
  "parse_chars [] = None"
| "parse_chars (c # s) =
     (if c = CHR 0x22 then Some ([], s)
      else if c = CHR 0x5C then
        (case s of
           [] \<Rightarrow> None
         | e # s1 \<Rightarrow>
             if e = CHR ''u'' then
               (case unicode_escape (take 4 s1) of
                  None \<Rightarrow> None
                | Some ch \<Rightarrow>
                    (case parse_chars (drop 4 s1) of
                       None \<Rightarrow> None
                     | Some (cs, r) \<Rightarrow> Some (ch # cs, r)))
             else
               (case unescape e of
                  None \<Rightarrow> None
                | Some ch \<Rightarrow>
                    (case parse_chars s1 of
                       None \<Rightarrow> None
                     | Some (cs, r) \<Rightarrow> Some (ch # cs, r))))
      else if (of_char c :: nat) < 32 then None
      else (case parse_chars s of
              None \<Rightarrow> None
            | Some (cs, r) \<Rightarrow> Some (c # cs, r)))"
  by pat_completeness auto
termination
  by (relation "measure length") auto

fun strip_prefix :: "string \<Rightarrow> string \<Rightarrow> string option" where
  "strip_prefix [] s = Some s"
| "strip_prefix (p # ps) [] = None"
| "strip_prefix (p # ps) (c # cs) = (if p = c then strip_prefix ps cs else None)"

fun parse_value :: "nat \<Rightarrow> string \<Rightarrow> (json \<times> string) option"
  and parse_elements :: "nat \<Rightarrow> string \<Rightarrow> (json list \<times> string) option"
  and parse_members :: "nat \<Rightarrow> string \<Rightarrow> ((string \<times> json) list \<times> string) option"
where
  "parse_value 0 s = None"
| "parse_value (Suc n) s =
     (case s of
        [] \<Rightarrow> None
      | c # r \<Rightarrow>
          if c = CHR ''n'' then map_option (Pair JNull) (strip_prefix ''ull'' r)
          else if c = CHR ''t'' then map_option (Pair (JBool True)) (strip_prefix ''rue'' r)
          else if c = CHR ''f'' then map_option (Pair (JBool False)) (strip_prefix ''alse'' r)
          else if c = CHR 0x22 then
            (case parse_chars r of
               None \<Rightarrow> None
             | Some (cs, r1) \<Rightarrow> Some (JStr cs, r1))
          else if c = CHR ''['' then
            (case r of
               [] \<Rightarrow> None
             | d # r1 \<Rightarrow>
                 if d = CHR '']'' then Some (JArr [], r1)
                 else (case parse_elements n r of
                         None \<Rightarrow> None
                       | Some (vs, r2) \<Rightarrow> Some (JArr vs, r2)))
          else if c = CHR ''{'' then
            (case r of
               [] \<Rightarrow> None
             | d # r1 \<Rightarrow>
                 if d = CHR ''}'' then Some (JObj [], r1)
                 else (case parse_members n r of
                         None \<Rightarrow> None
                       | Some (ms, r2) \<Rightarrow> Some (JObj ms, r2)))
          else parse_number s)"
| "parse_elements 0 s = None"
| "parse_elements (Suc n) s =
     (case parse_value n s of
        None \<Rightarrow> None
      | Some (v, r) \<Rightarrow>
          (case r of
             [] \<Rightarrow> None
           | d # r1 \<Rightarrow>
               if d = CHR '','' then
                 (case parse_elements n r1 of
                    None \<Rightarrow> None
                  | Some (vs, r2) \<Rightarrow> Some (v # vs, r2))
               else if d = CHR '']'' then Some ([v], r1)
               else None))"
| "parse_members 0 s = None"
| "parse_members (Suc n) s =
     (case s of
        [] \<Rightarrow> None
      | q # s1 \<Rightarrow>
          if q \<noteq> CHR 0x22 then None
          else
            (case parse_chars s1 of
               None \<Rightarrow> None
             | Some (k, s2) \<Rightarrow>
                 (case s2 of
                    [] \<Rightarrow> None
                  | col # s3 \<Rightarrow>
                      if col \<noteq> CHR '':'' then None
                      else
                        (case parse_value n s3 of
                           None \<Rightarrow> None
                         | Some (v, r) \<Rightarrow>
                             (case r of
                                [] \<Rightarrow> None
                              | d # r1 \<Rightarrow>
                                  if d = CHR '','' then
                                    (case parse_members n r1 of
                                       None \<Rightarrow> None
                                     | Some (ms, r2) \<Rightarrow> Some ((k, v) # ms, r2))
                                  else if d = CHR ''}'' then Some ([(k, v)], r1)
                                  else None)))))"

definition JSON_parse :: "string \<Rightarrow> error + json" where
  "JSON_parse s =
     (case parse_value (length s) s of
        None \<Rightarrow> Inl SyntaxError
      | Some (v, r) \<Rightarrow> if r = [] then Inr v else Inl SyntaxError)"

text \<open>A character after which a number's digits have ended (used to state the round trip).\<close>

definition follow_ok :: "string \<Rightarrow> bool" where
  "follow_ok rest = (case rest of [] \<Rightarrow> True | c # _ \<Rightarrow> \<not> is_digit c)"

section \<open>Signals, change records and collaborators\<close>

text \<open>
  A change record is the \<^verbatim>\<open>IChangedArgs<T>\<close> of phosphor-properties. A signal bound to
  a sender delivers \<open>(sender, args)\<close> to the connected handlers at the moment
  \<^verbatim>\<open>emit\<close> is called, so an operation returns, next to the updated object, the list
  of its emissions in order, each with the sender as the handlers see it at that moment.
\<close>

record 'v IChangedArgs =
  name :: string
  oldValue :: 'v
  newValue :: 'v

type_synonym 's emission = "'s \<times> json IChangedArgs"

definition emitted :: "'s \<times> 's emission list \<Rightarrow> json IChangedArgs list" where
  "emitted r = map snd (snd r)"

text \<open>The value a typed, nullable field shows in a change record.\<close>

definition any_string :: "string option \<Rightarrow> json" where
  "any_string s = (case s of None \<Rightarrow> JNull | Some t \<Rightarrow> JStr t)"

definition any_number :: "int option \<Rightarrow> json" where
  "any_number n = (case n of None \<Rightarrow> JNull | Some i \<Rightarrow> JNum i)"

text \<open>\<^verbatim>\<open>type ScrollSetting = boolean | 'auto'\<close>\<close>

datatype ScrollSetting = ScrollBool bool | ScrollAuto

definition any_scroll :: "ScrollSetting \<Rightarrow> json" where
  "any_scroll s = (case s of ScrollBool b \<Rightarrow> JBool b | ScrollAuto \<Rightarrow> JStr ''auto'')"

text \<open>
  Modelled from the spec: the output collection of a code cell
  (\<^verbatim>\<open>OutputAreaModel\<close> of \<^verbatim>\<open>../output-area/model\<close>, which is not among the
  sources): an ordered, appendable collection of execution-result records with a trusted
  flag and disposal. Its \<^verbatim>\<open>outputs\<close> is an observable list whose
  \<^verbatim>\<open>add\<close> appends one item.
\<close>

record OutputAreaModel =
  oa_outputs :: "json list"
  oa_trusted :: bool
  oa_disposed :: bool

definition OutputAreaModel_new :: OutputAreaModel where
  "OutputAreaModel_new = \<lparr>oa_outputs = [], oa_trusted = False, oa_disposed = False\<rparr>"

definition outputs_add :: "json \<Rightarrow> OutputAreaModel \<Rightarrow> OutputAreaModel" where
  "outputs_add item out = out\<lparr>oa_outputs := oa_outputs out @ [item]\<rparr>"

definition OutputAreaModel_set_trusted :: "bool \<Rightarrow> OutputAreaModel \<Rightarrow> OutputAreaModel" where
  "OutputAreaModel_set_trusted v out = out\<lparr>oa_trusted := v\<rparr>"

definition OutputAreaModel_dispose :: "OutputAreaModel \<Rightarrow> OutputAreaModel" where
  "OutputAreaModel_dispose out = out\<lparr>oa_disposed := True\<rparr>"

section \<open>The metadata cursor\<close>

text \<open>
  \<^verbatim>\<open>MetadataCursor\<close> holds a namespace key, a reference to the owner's metadata object
  (\<^verbatim>\<open>{ [key: string]: string }\<close>, created without a prototype) and a callback. The
  referenced object is passed to the operations as a map from namespace to stored text;
  \<open>MetadataCursor_setValue\<close> returns the updated map and the arguments of the calls of
  the callback it made, in order.
\<close>

record MetadataCursor =
  cursor_name :: string

text \<open>
  \<^verbatim>\<open>prev === value\<close> for a stored text \<open>prev\<close> (absent: \<^verbatim>\<open>undefined\<close>) and a
  JSON value: strict equality holds exactly when the value is a string with the same
  characters as the stored text.
\<close>

definition strict_equals_text :: "string option \<Rightarrow> json \<Rightarrow> bool" where
  "strict_equals_text prev v =
     (case prev of
        None \<Rightarrow> False
      | Some s \<Rightarrow> (case v of JStr t \<Rightarrow> s = t | _ \<Rightarrow> False))"

text \<open>\<^verbatim>\<open>this._metadata[this._name] || 'null'\<close>: an absent or empty text reads as null.\<close>

definition MetadataCursor_getValue :: "MetadataCursor \<Rightarrow> (string \<rightharpoonup> string) \<Rightarrow> error + json" where
  "MetadataCursor_getValue this metadata =
     JSON_parse (case metadata (cursor_name this) of
                   None \<Rightarrow> ''null''
                 | Some s \<Rightarrow> if s = [] then ''null'' else s)"

definition MetadataCursor_setValue ::
  "MetadataCursor \<Rightarrow> json \<Rightarrow> (string \<rightharpoonup> string) \<Rightarrow> (string \<rightharpoonup> string) \<times> string list" where
  "MetadataCursor_setValue this v metadata =
     (let prev = metadata (cursor_name this)
      in if strict_equals_text prev v then (metadata, [])
         else (metadata(cursor_name this \<mapsto> JSON_stringify v), [cursor_name this]))"

text \<open>\<^verbatim>\<open>Array.prototype.indexOf\<close>: the first index of the item, or -1.\<close>

fun indexOf_from :: "'a list \<Rightarrow> 'a \<Rightarrow> int \<Rightarrow> int" where
  "indexOf_from [] x i = - 1"
| "indexOf_from (y # ys) x i = (if y = x then i else indexOf_from ys x (i + 1))"

definition indexOf :: "'a list \<Rightarrow> 'a \<Rightarrow> int" where
  "indexOf xs x = indexOf_from xs x 0"

section \<open>Cell models\<close>

text \<open>
  The classes of the cell model that owns metadata cursors: \<^verbatim>\<open>BaseCellModel\<close>
  and its subclasses as record extensions, the private fields \<^verbatim>\<open>_source\<close>,
  \<^verbatim>\<open>_tags\<close>, ... as the fields \<open>c_source\<close>, \<open>c_tags\<close>, ... A field typed
  \<^verbatim>\<open>string\<close> or \<^verbatim>\<open>number\<close> that starts as \<^verbatim>\<open>null\<close> is an option. The connections
  phosphor-signaling keeps for the object (signal name and slot) are the field
  \<open>c_signalData\<close>, which \<^verbatim>\<open>clearSignalData(this)\<close> empties. The \<^verbatim>\<open>type\<close> field is
  initialised by each class and never assigned; it is the constructor of \<open>ICellModel\<close>.
\<close>

record BaseCellModel =
  c_disposed :: bool
  c_source :: "string option"
  c_tags :: string
  c_name :: "string option"
  c_trusted :: bool
  c_readOnly :: bool
  c_metadata :: "string \<rightharpoonup> string"
  c_signalData :: "(string \<times> nat) list"

record CodeCellModel = BaseCellModel +
  c_output :: "OutputAreaModel option"
  c_scrolled :: ScrollSetting
  c_collapsed :: bool
  c_executionCount :: "int option"

type_synonym MarkdownCellModel = BaseCellModel

record RawCellModel = BaseCellModel +
  c_format :: "string option"

datatype ICellModel =
    CodeCell CodeCellModel
  | MarkdownCell MarkdownCellModel
  | RawCell RawCellModel

definition MarkdownCellModel_new :: MarkdownCellModel where
  "MarkdownCellModel_new =
     \<lparr>c_disposed = False, c_source = None, c_tags = ''[]'', c_name = None,
      c_trusted = False, c_readOnly = False, c_metadata = Map.empty, c_signalData = []\<rparr>"

definition CodeCellModel_new :: "OutputAreaModel option \<Rightarrow> CodeCellModel" where
  "CodeCellModel_new output =
     \<lparr>c_disposed = False, c_source = None, c_tags = ''[]'', c_name = None,
      c_trusted = False, c_readOnly = False, c_metadata = Map.empty, c_signalData = [],
      c_output = output, c_scrolled = ScrollBool False, c_collapsed = False,
      c_executionCount = None\<rparr>"

definition RawCellModel_new :: RawCellModel where
  "RawCellModel_new =
     \<lparr>c_disposed = False, c_source = None, c_tags = ''[]'', c_name = None,
      c_trusted = False, c_readOnly = False, c_metadata = Map.empty, c_signalData = [],
      c_format = None\<rparr>"

definition cell_type :: "ICellModel \<Rightarrow> string" where
  "cell_type m = (case m of CodeCell _ \<Rightarrow> ''code'' | MarkdownCell _ \<Rightarrow> ''markdown'' | RawCell _ \<Rightarrow> ''raw'')"

definition isMarkdownCellModel :: "ICellModel \<Rightarrow> bool" where
  "isMarkdownCellModel m = (cell_type m = ''markdown'')"

definition isCodeCellModel :: "ICellModel \<Rightarrow> bool" where
  "isCodeCellModel m = (cell_type m = ''code'')"

definition isRawCellModel :: "ICellModel \<Rightarrow> bool" where
  "isRawCellModel m = (cell_type m = ''raw'')"

subsection \<open>Attributes of every cell\<close>

definition BaseCellModel_set_source ::
  "string option \<Rightarrow> 'a BaseCellModel_scheme
     \<Rightarrow> 'a BaseCellModel_scheme \<times> 'a BaseCellModel_scheme emission list" where
  "BaseCellModel_set_source new this =
     (if new = c_source this then (this, [])
      else
        let old = c_source this;
            this1 = this\<lparr>c_source := new\<rparr>
        in (this1, [(this1, \<lparr>name = ''source'', oldValue = any_string old,
                              newValue = any_string new\<rparr>)]))"

text \<open>
  \<^verbatim>\<open>onTrustChanged\<close> is a virtual method: the setter of \<^verbatim>\<open>trusted\<close> takes the
  implementation of the receiver's class. The base implementation is empty; the one of a
  code cell assigns \<^verbatim>\<open>this.output.trusted\<close> and fails on a missing output collection.
\<close>

definition BaseCellModel_onTrustChanged ::
  "bool \<Rightarrow> 'a BaseCellModel_scheme \<Rightarrow> error + 'a BaseCellModel_scheme" where
  "BaseCellModel_onTrustChanged v this = Inr this"

definition CodeCellModel_onTrustChanged :: "bool \<Rightarrow> CodeCellModel \<Rightarrow> error + CodeCellModel" where
  "CodeCellModel_onTrustChanged v this =
     (case c_output this of
        None \<Rightarrow> Inl TypeError
      | Some out \<Rightarrow> Inr (this\<lparr>c_output := Some (OutputAreaModel_set_trusted v out)\<rparr>))"

definition BaseCellModel_set_trusted ::
  "(bool \<Rightarrow> 'a BaseCellModel_scheme \<Rightarrow> error + 'a BaseCellModel_scheme)
     \<Rightarrow> bool \<Rightarrow> 'a BaseCellModel_scheme
     \<Rightarrow> error + 'a BaseCellModel_scheme \<times> 'a BaseCellModel_scheme emission list" where
  "BaseCellModel_set_trusted onTrustChanged new this =
     (if new = c_trusted this then Inr (this, [])
      else
        let old = c_trusted this;
            this1 = this\<lparr>c_trusted := new\<rparr>
        in then_do (onTrustChanged new this1)
             (\<lambda>this2. Inr (this2, [(this2, \<lparr>name = ''trusted'', oldValue = JBool old,
                                            newValue = JBool new\<rparr>)])))"

definition CodeCellModel_set_trusted ::
  "bool \<Rightarrow> CodeCellModel \<Rightarrow> error + CodeCellModel \<times> CodeCellModel emission list" where
  "CodeCellModel_set_trusted = BaseCellModel_set_trusted CodeCellModel_onTrustChanged"

definition MarkdownCellModel_set_trusted ::
  "bool \<Rightarrow> MarkdownCellModel \<Rightarrow> error + MarkdownCellModel \<times> MarkdownCellModel emission list" where
  "MarkdownCellModel_set_trusted = BaseCellModel_set_trusted BaseCellModel_onTrustChanged"

definition RawCellModel_set_trusted ::
  "bool \<Rightarrow> RawCellModel \<Rightarrow> error + RawCellModel \<times> RawCellModel emission list" where
  "RawCellModel_set_trusted = BaseCellModel_set_trusted BaseCellModel_onTrustChanged"


text \<open>
  \<^verbatim>\<open>shallowEquals\<close> comes from jupyter-js-utils, which is not among the sources; it
  is a parameter of the operations that call it. A call returns a boolean or throws, and
  a setter whose comparison throws stores nothing and emits nothing.

  The library reads the members of its second argument: a call whose first argument has
  members and whose second is \<^verbatim>\<open>null\<close> throws a TypeError. \<open>null_unsafe_equals\<close> is a
  comparison that fails there and decides equality of values elsewhere; it stands for the
  library where a concrete comparison is needed.
\<close>

definition has_members :: "json \<Rightarrow> bool" where
  "has_members v = (case v of JArr xs \<Rightarrow> xs \<noteq> [] | JObj ms \<Rightarrow> ms \<noteq> [] | _ \<Rightarrow> False)"

definition null_unsafe_equals :: "json \<Rightarrow> json \<Rightarrow> error + bool" where
  "null_unsafe_equals a b =
     (if has_members a \<and> b = JNull then Inl TypeError else Inr (a = b))"

definition BaseCellModel_tags :: "'a BaseCellModel_scheme \<Rightarrow> error + json" where
  "BaseCellModel_tags this = JSON_parse (c_tags this)"

definition BaseCellModel_set_tags ::
  "(json \<Rightarrow> json \<Rightarrow> error + bool) \<Rightarrow> json \<Rightarrow> 'a BaseCellModel_scheme
     \<Rightarrow> error + 'a BaseCellModel_scheme \<times> 'a BaseCellModel_scheme emission list" where
  "BaseCellModel_set_tags shallowEquals new this =
     then_do (JSON_parse (c_tags this))
       (\<lambda>old.
          then_do (shallowEquals old new)
            (\<lambda>equal.
               if equal then Inr (this, [])
               else
                 let this1 = this\<lparr>c_tags := JSON_stringify new\<rparr>
                 in Inr (this1, [(this1, \<lparr>name = ''tags'', oldValue = old,
                                          newValue = new\<rparr>)])))"

subsection \<open>Disposal\<close>

definition BaseCellModel_isDisposed :: "'a BaseCellModel_scheme \<Rightarrow> bool" where
  "BaseCellModel_isDisposed this = True"

definition clearSignalData :: "'a BaseCellModel_scheme \<Rightarrow> 'a BaseCellModel_scheme" where
  "clearSignalData this = this\<lparr>c_signalData := []\<rparr>"

definition BaseCellModel_dispose :: "'a BaseCellModel_scheme \<Rightarrow> 'a BaseCellModel_scheme" where
  "BaseCellModel_dispose this =
     (if BaseCellModel_isDisposed this then this
      else (clearSignalData this)\<lparr>c_disposed := True\<rparr>)"

text \<open>
  \<^verbatim>\<open>CodeCellModel.dispose\<close> returns the cell and, when it called
  \<^verbatim>\<open>this._output.dispose()\<close>, the output collection after that call (the cell drops
  its reference to it).
\<close>

definition CodeCellModel_dispose ::
  "CodeCellModel \<Rightarrow> error + CodeCellModel \<times> OutputAreaModel option" where
  "CodeCellModel_dispose this =
     (if BaseCellModel_isDisposed this then Inr (this, None)
      else
        (case c_output this of
           None \<Rightarrow> Inl TypeError
         | Some out \<Rightarrow>
             Inr (BaseCellModel_dispose (this\<lparr>c_output := None\<rparr>),
                  Some (OutputAreaModel_dispose out))))"

definition ICellModel_dispose :: "ICellModel \<Rightarrow> error + ICellModel" where
  "ICellModel_dispose m =
     (case m of
        CodeCell c \<Rightarrow> then_do (CodeCellModel_dispose c) (\<lambda>r. Inr (CodeCell (fst r)))
      | MarkdownCell c \<Rightarrow> Inr (MarkdownCell (BaseCellModel_dispose c))
      | RawCell c \<Rightarrow> Inr (RawCell (BaseCellModel_dispose c)))"

subsection \<open>Metadata cursors of a cell\<close>

definition BaseCellModel_getMetadata ::
  "string \<Rightarrow> 'a BaseCellModel_scheme \<Rightarrow> error + MetadataCursor" where
  "BaseCellModel_getMetadata key this =
     (let blacklist = [''tags'', ''name'', ''trusted'', ''collapsed'', ''scrolled'',
                       ''execution_count'', ''format'']
      in if indexOf blacklist key \<noteq> - 1 then
           Inl (Error (''Use model attribute for ''
                         @ blacklist ! nat (indexOf blacklist key) @ '' directly''))
         else Inr \<lparr>cursor_name = key\<rparr>)"

subsection \<open>Attributes of code and raw cells\<close>

definition CodeCellModel_set_executionCount ::
  "int option \<Rightarrow> CodeCellModel \<Rightarrow> CodeCellModel \<times> CodeCellModel emission list" where
  "CodeCellModel_set_executionCount v this =
     (if c_executionCount this = v then (this, [])
      else
        let prev = c_executionCount this;
            this1 = this\<lparr>c_executionCount := v\<rparr>
        in (this1, [(this1, \<lparr>name = ''executionCount'', oldValue = any_number prev,
                              newValue = any_number v\<rparr>)]))"

definition CodeCellModel_set_collapsed ::
  "bool \<Rightarrow> CodeCellModel \<Rightarrow> CodeCellModel \<times> CodeCellModel emission list" where
  "CodeCellModel_set_collapsed v this =
     (if c_collapsed this = v then (this, [])
      else
        let prev = c_collapsed this;
            this1 = this\<lparr>c_collapsed := v\<rparr>
        in (this1, [(this1, \<lparr>name = ''collapsed'', oldValue = JBool prev,
                              newValue = JBool v\<rparr>)]))"

definition CodeCellModel_set_scrolled ::
  "ScrollSetting \<Rightarrow> CodeCellModel \<Rightarrow> CodeCellModel \<times> CodeCellModel emission list" where
  "CodeCellModel_set_scrolled v this =
     (if c_scrolled this = v then (this, [])
      else
        let prev = c_scrolled this;
            this1 = this\<lparr>c_scrolled := v\<rparr>
        in (this1, [(this1, \<lparr>name = ''scrolled'', oldValue = any_scroll prev,
                              newValue = any_scroll v\<rparr>)]))"


subsection \<open>The attributes read through \<^verbatim>\<open>ICellModel\<close>\<close>

definition ICellModel_trusted :: "ICellModel \<Rightarrow> bool" where
  "ICellModel_trusted m =
     (case m of CodeCell c \<Rightarrow> c_trusted c | MarkdownCell c \<Rightarrow> c_trusted c | RawCell c \<Rightarrow> c_trusted c)"

definition ICellModel_source :: "ICellModel \<Rightarrow> string option" where
  "ICellModel_source m =
     (case m of CodeCell c \<Rightarrow> c_source c | MarkdownCell c \<Rightarrow> c_source c | RawCell c \<Rightarrow> c_source c)"

definition ICellModel_tags :: "ICellModel \<Rightarrow> error + json" where
  "ICellModel_tags m =
     (case m of
        CodeCell c \<Rightarrow> BaseCellModel_tags c
      | MarkdownCell c \<Rightarrow> BaseCellModel_tags c
      | RawCell c \<Rightarrow> BaseCellModel_tags c)"

section \<open>The notebook model\<close>

definition DEFAULT_KERNELSPEC :: json where
  "DEFAULT_KERNELSPEC = JObj [(''name'', JStr ''unknown''), (''display_name'', JStr ''No Kernel!'')]"

definition DEFAULT_LANG_INFO :: json where
  "DEFAULT_LANG_INFO = JObj [(''name'', JStr ''unknown'')]"

text \<open>
  Cells are objects; the notebook's observable list and the change records of that list
  hold references to them. A reference is a number, the cells live in a heap.
\<close>

type_synonym cell_ref = nat

record NotebookModel =
  nb_defaultLang :: string
  nb_metadata :: "string \<rightharpoonup> string"
  nb_cells :: "cell_ref list"
  nb_kernelspec :: string
  nb_langInfo :: string
  nb_origNbformat :: "int option"

definition NotebookModel_new :: NotebookModel where
  "NotebookModel_new =
     \<lparr>nb_defaultLang = [], nb_metadata = Map.empty, nb_cells = [],
      nb_kernelspec = JSON_stringify DEFAULT_KERNELSPEC,
      nb_langInfo = JSON_stringify DEFAULT_LANG_INFO,
      nb_origNbformat = None\<rparr>"

definition NotebookModel_createOutputArea :: OutputAreaModel where
  "NotebookModel_createOutputArea = OutputAreaModel_new"

subsection \<open>Typed document metadata\<close>






subsection \<open>Metadata cursors of the notebook\<close>

definition NotebookModel_getMetadata :: "string \<Rightarrow> NotebookModel \<Rightarrow> error + MetadataCursor" where
  "NotebookModel_getMetadata key this =
     (let invalid = [''kernelspec'', ''languageInfo'', ''origNbformat'']
      in if indexOf invalid key \<noteq> - 1 then
           Inl (Error (''Use model attribute for ''
                         @ invalid ! nat (indexOf invalid key) @ '' directly''))
         else Inr \<lparr>cursor_name = key\<rparr>)"

subsection \<open>The cell factory\<close>

text \<open>
  The loop of \<^verbatim>\<open>createCodeCell\<close> over the indices of the source's outputs; the source
  cell's output collection is \<open>so\<close>.
\<close>

function copy_outputs :: "nat \<Rightarrow> OutputAreaModel \<Rightarrow> CodeCellModel \<Rightarrow> error + CodeCellModel" where
  "copy_outputs i so cell =
     (if i < length (oa_outputs so) then
        (case c_output cell of
           None \<Rightarrow> Inl TypeError
         | Some co \<Rightarrow>
             copy_outputs (i + 1) so
               (cell\<lparr>c_output := Some (outputs_add (oa_outputs so ! i) co)\<rparr>))
      else Inr cell)"
  by pat_completeness auto
termination
  by (relation "measure (\<lambda>(i, so, cell). length (oa_outputs so) - i)") auto

declare copy_outputs.simps [simp del]

text \<open>
  The new cell has no connected handler yet, so the emissions of its setters reach nobody
  and only the cell is returned.
\<close>

definition NotebookModel_createCodeCell ::
  "(json \<Rightarrow> json \<Rightarrow> error + bool) \<Rightarrow> ICellModel option \<Rightarrow> error + CodeCellModel" where
  "NotebookModel_createCodeCell shallowEquals source =
     (let output = NotebookModel_createOutputArea;
          cell = CodeCellModel_new (Some output)
      in then_do (CodeCellModel_set_trusted True cell) (\<lambda>r1.
           case source of
             None \<Rightarrow> Inr (fst r1)
           | Some src \<Rightarrow>
               then_do (CodeCellModel_set_trusted (ICellModel_trusted src) (fst r1)) (\<lambda>r2.
               let cell3 = fst (BaseCellModel_set_source (ICellModel_source src) (fst r2))
               in then_do (ICellModel_tags src) (\<lambda>tags.
                  then_do (BaseCellModel_set_tags shallowEquals tags cell3) (\<lambda>r4.
                    if isCodeCellModel src then
                      (case src of
                         CodeCell sc \<Rightarrow>
                           let cell5 = fst (CodeCellModel_set_collapsed (c_collapsed sc) (fst r4));
                               cell6 = fst (CodeCellModel_set_scrolled (c_scrolled sc) cell5)
                           in (case c_output sc of
                                 None \<Rightarrow> Inl TypeError
                               | Some so \<Rightarrow> copy_outputs 0 so cell6)
                       | _ \<Rightarrow> Inl TypeError)
                    else Inr (fst r4))))))"

subsection \<open>Changes of the cell list\<close>

text \<open>
  The change record of phosphor-observablelist: the kind of change, the indices, and the
  old and new value, each one item, a list of items, or \<^verbatim>\<open>undefined\<close>.
\<close>

datatype ListChangeType = Add | Move | Remove | Replace | Set

datatype 'a list_value = NoValue | Item 'a | Items "'a list"

record 'a IListChangedArgs =
  change_type :: ListChangeType
  change_newIndex :: int
  change_newValue :: "'a list_value"
  change_oldIndex :: int
  change_oldValue :: "'a list_value"

text \<open>
  The heap of cells, and the receivers of the calls of \<^verbatim>\<open>dispose()\<close> made on cells,
  in call order.
\<close>

record cells_world =
  heap :: "cell_ref \<rightharpoonup> ICellModel"
  dispose_calls :: "cell_ref list"

definition cell_dispose :: "cell_ref \<Rightarrow> cells_world \<Rightarrow> error + cells_world" where
  "cell_dispose r w =
     (case heap w r of
        None \<Rightarrow> Inl TypeError
      | Some c \<Rightarrow>
          then_do (ICellModel_dispose c)
            (\<lambda>c1. Inr (w\<lparr>heap := (heap w)(r \<mapsto> c1), dispose_calls := dispose_calls w @ [r]\<rparr>)))"

fun dispose_each :: "cell_ref list \<Rightarrow> cells_world \<Rightarrow> error + cells_world" where
  "dispose_each [] w = Inr w"
| "dispose_each (r # rs) w = then_do (cell_dispose r w) (dispose_each rs)"

definition NotebookModel_onCellsChanged ::
  "cell_ref IListChangedArgs \<Rightarrow> cells_world \<Rightarrow> error + cells_world" where
  "NotebookModel_onCellsChanged change w =
     (case change_type change of
        Remove \<Rightarrow>
          (case change_oldValue change of
             Item cell \<Rightarrow> cell_dispose cell w
           | _ \<Rightarrow> Inl TypeError)
      | Replace \<Rightarrow>
          (case change_oldValue change of
             Items oldValues \<Rightarrow> dispose_each oldValues w
           | _ \<Rightarrow> Inl TypeError)
      | _ \<Rightarrow> Inr w)"

section \<open>The cell model with an input area\<close>

text \<open>
  The other cell model among the sources delegates to an input area and keeps its
  attributes in property descriptors of phosphor-properties. Its names carry the suffix
  \<open>_ia\<close>. A value that may be \<^verbatim>\<open>undefined\<close> (a property without a default) is an
  option, and its change records carry \<open>json option\<close>.

  Modelled from the spec: the observable property descriptor (phosphor-properties is not
  among the sources). Setting a property compares the new value with the current one by
  strict equality and, if they differ, stores the new value and emits one change record
  \<open>{name, oldValue, newValue}\<close> through the descriptor's signal.
\<close>

definition Property_changed :: "string \<Rightarrow> 'v \<Rightarrow> 'v \<Rightarrow> 'v IChangedArgs list" where
  "Property_changed pname old new =
     (if old = new then [] else [\<lparr>name = pname, oldValue = old, newValue = new\<rparr>])"

record InputAreaModel =
  ia_collapsed :: "bool option"
  ia_prompt :: "string option"

definition InputAreaModel_new :: InputAreaModel where
  "InputAreaModel_new = \<lparr>ia_collapsed = None, ia_prompt = None\<rparr>"

definition InputAreaModel_set_prompt ::
  "string \<Rightarrow> InputAreaModel \<Rightarrow> InputAreaModel \<times> json option IChangedArgs list" where
  "InputAreaModel_set_prompt v this =
     (this\<lparr>ia_prompt := Some v\<rparr>,
      Property_changed ''prompt'' (map_option JStr (ia_prompt this)) (Some (JStr v)))"

record CodeCellModel_ia =
  cia_input :: InputAreaModel
  cia_output :: "OutputAreaModel option"
  cia_executionCount :: "int option"

text \<open>
  \<^verbatim>\<open>onInputChanged\<close> is connected to the input area's signal by the constructor; it
  emits again, on the cell's signal, the records named dirty and readOnly.
\<close>

definition BaseCellModel_ia_onInputChanged ::
  "json option IChangedArgs \<Rightarrow> json option IChangedArgs list" where
  "BaseCellModel_ia_onInputChanged args =
     (if name args = ''dirty'' \<or> name args = ''readOnly'' then [args] else [])"

text \<open>Assigning \<^verbatim>\<open>this.input.prompt\<close>: the input area emits, the cell's handler runs.\<close>

definition CodeCellModel_ia_assign_prompt ::
  "string \<Rightarrow> CodeCellModel_ia \<Rightarrow> CodeCellModel_ia \<times> json option IChangedArgs list" where
  "CodeCellModel_ia_assign_prompt v this =
     (let r = InputAreaModel_set_prompt v (cia_input this)
      in (this\<lparr>cia_input := fst r\<rparr>, concat (map BaseCellModel_ia_onInputChanged (snd r))))"

definition CodeCellModel_ia_new ::
  "InputAreaModel \<Rightarrow> OutputAreaModel option \<Rightarrow> CodeCellModel_ia" where
  "CodeCellModel_ia_new input output =
     fst (CodeCellModel_ia_assign_prompt ''In [ ]:''
            \<lparr>cia_input = input, cia_output = output, cia_executionCount = None\<rparr>)"

definition CodeCellModel_ia_set_executionCount ::
  "int option \<Rightarrow> CodeCellModel_ia \<Rightarrow> CodeCellModel_ia \<times> json option IChangedArgs list" where
  "CodeCellModel_ia_set_executionCount v this =
     (let ev = Property_changed ''executionCount''
                 (Some (any_number (cia_executionCount this))) (Some (any_number v));
          this1 = this\<lparr>cia_executionCount := v\<rparr>;
          r = CodeCellModel_ia_assign_prompt
                (''In ['' @ (case v of None \<Rightarrow> '' '' | Some n \<Rightarrow> number_text n) @ '']:'') this1
      in (fst r, ev @ snd r))"

section \<open>The round trip through JSON text\<close>

subsection \<open>Numbers\<close>

lemma digit_char_is_digit: "d < 10 \<Longrightarrow> is_digit (digit_char d)"
  by (simp add: is_digit_def digit_char_def)

lemma digit_val_digit_char: "d < 10 \<Longrightarrow> digit_val (digit_char d) = d"
  by (simp add: digit_val_def digit_char_def)

lemma digits_not_Nil: "digits n \<noteq> []"
  by (subst digits.simps) simp

lemma digits_all_digit: "\<forall>c \<in> set (digits n). is_digit c"
proof (induction n rule: digits.induct)
  case (1 n)
  show ?case
  proof (cases "n < 10")
    case True
    then show ?thesis by (subst digits.simps) (simp add: digit_char_is_digit)
  next
    case False
    with 1 show ?thesis by (subst digits.simps) (simp add: digit_char_is_digit)
  qed
qed

lemma digits_val_append: "digits_val (ds @ [c]) = 10 * digits_val ds + digit_val c"
  by (simp add: digits_val_def)

lemma digits_val_digits: "digits_val (digits n) = n"
proof (induction n rule: digits.induct)
  case (1 n)
  show ?case
  proof (cases "n < 10")
    case True
    then show ?thesis
      by (subst digits.simps) (simp add: digits_val_def digit_val_digit_char)
  next
    case False
    with 1 have "digits_val (digits (n div 10)) = n div 10" by simp
    with False show ?thesis
      by (subst digits.simps) (simp add: digits_val_append digit_val_digit_char)
  qed
qed

lemma digits_no_leading_zero: "hd (digits n) = CHR ''0'' \<Longrightarrow> length (digits n) = 1"
proof (induction n rule: digits.induct)
  case (1 n)
  show ?case
  proof (cases "n < 10")
    case True
    then show ?thesis by (subst digits.simps) simp
  next
    case False
    from "1.prems" False have h: "hd (digits (n div 10)) = CHR ''0''"
      by (subst (asm) digits.simps) (simp add: digits_not_Nil)
    with 1 False have l: "length (digits (n div 10)) = 1" by simp
    then obtain c where c: "digits (n div 10) = [c]"
      by (cases "digits (n div 10)") auto
    with h have "c = CHR ''0''" by simp
    with c have "digits_val (digits (n div 10)) = 0"
      by (simp add: digits_val_def digit_val_def)
    then have "n div 10 = 0" by (simp add: digits_val_digits)
    with False show ?thesis by simp
  qed
qed

lemma takeWhile_digits: "follow_ok rest \<Longrightarrow> takeWhile is_digit (digits n @ rest) = digits n"
  using digits_all_digit [of n]
  by (cases rest) (simp_all add: follow_ok_def takeWhile_append2 takeWhile_eq_all_conv [THEN iffD2])

lemma dropWhile_digits: "follow_ok rest \<Longrightarrow> dropWhile is_digit (digits n @ rest) = rest"
  using digits_all_digit [of n]
  by (cases rest) (simp_all add: follow_ok_def dropWhile_append2)

lemma digits_head: "\<exists>c t. digits n = c # t \<and> is_digit c"
  using digits_all_digit [of n] digits_not_Nil [of n]
  by (cases "digits n") auto

lemma parse_number_text:
  assumes "follow_ok rest"
  shows "parse_number (number_text i @ rest) = Some (JNum i, rest)"
proof (cases "i < 0")
  case True
  then show ?thesis
    using assms digits_no_leading_zero [of "nat (- i)"]
    by (auto simp: Let_def parse_number_def number_text_def takeWhile_digits dropWhile_digits
        digits_not_Nil digits_val_digits)
next
  case False
  obtain c t where ct: "digits (nat i) = c # t" "is_digit c"
    using digits_head by blast
  then have "c \<noteq> CHR ''-''" by (auto simp: is_digit_def)
  with False ct(1) have neg: "(case number_text i @ rest of [] \<Rightarrow> False | c # _ \<Rightarrow> c = CHR ''-'') = False"
    by (simp add: number_text_def)
  from False have nt: "number_text i = digits (nat i)" by (simp add: number_text_def)
  show ?thesis
    using assms digits_no_leading_zero [of "nat i"] False
    unfolding parse_number_def neg
    by (auto simp: Let_def nt takeWhile_digits dropWhile_digits digits_not_Nil digits_val_digits)
qed

subsection \<open>Strings\<close>

lemma hex_val_hex_char: "d < 16 \<Longrightarrow> hex_val (hex_char d) = Some d"
  by (auto simp: hex_val_def hex_char_def Let_def)

lemma unicode_escape_hex:
  assumes "n < 256"
  shows "unicode_escape [CHR ''0'', CHR ''0'', hex_char (n div 16), hex_char (n mod 16)]
         = Some (char_of n)"
proof -
  from assms have "n div 16 < 16" by simp
  then have a: "hex_val (hex_char (n div 16)) = Some (n div 16)" by (rule hex_val_hex_char)
  have b: "hex_val (hex_char (n mod 16)) = Some (n mod 16)" by (rule hex_val_hex_char) simp
  have z: "hex_val CHR ''0'' = Some 0" by (simp add: hex_val_def)
  show ?thesis by (simp add: unicode_escape_def a b z)
qed

lemma parse_chars_escape:
  "parse_chars (escape_char c @ t) =
     (case parse_chars t of None \<Rightarrow> None | Some (cs, r) \<Rightarrow> Some (c # cs, r))"
proof -
  have u: "unicode_escape [CHR ''0'', CHR ''0'', hex_char (of_char c div 16), hex_char (of_char c mod 16)]
           = Some c"
    using unicode_escape_hex [of "of_char c"] by simp
  show ?thesis
    by (auto simp: escape_char_def unescape_def u)
qed

lemma parse_chars_quote:
  "parse_chars (concat (map escape_char s) @ CHR 0x22 # rest) = Some (s, rest)"
  by (induction s) (simp_all add: parse_chars_escape)

subsection \<open>Values\<close>

lemma strip_prefix_append: "strip_prefix p (p @ r) = Some r"
  by (induction p) simp_all

lemma number_text_head: "\<exists>c t. number_text i = c # t \<and> (c = CHR ''-'' \<or> is_digit c)"
  using digits_head [of "nat i"] by (auto simp: number_text_def)

lemma stringify_head: "\<exists>c t. JSON_stringify v = c # t \<and> c \<noteq> CHR '']''"
proof (cases v)
  case (JNum i)
  then show ?thesis using number_text_head [of i] by (auto simp: is_digit_def)
qed (simp_all add: quote_def)

lemma parse_value_number:
  assumes "follow_ok rest"
  shows "parse_value (Suc n) (number_text i @ rest) = Some (JNum i, rest)"
proof -
  obtain c t where ct: "number_text i = c # t" "c = CHR ''-'' \<or> is_digit c"
    using number_text_head by blast
  have "parse_value (Suc n) (c # t @ rest) = parse_number (c # t @ rest)"
    using ct(2) by (auto simp: is_digit_def)
  with ct(1) parse_number_text [OF assms, of i] show ?thesis by simp
qed

lemma follow_ok_simps [simp]:
  "follow_ok []" "follow_ok (CHR '','' # r)" "follow_ok (CHR '']'' # r)" "follow_ok (CHR ''}'' # r)"
  by (simp_all add: follow_ok_def is_digit_def)

lemma parse_elements_join:
  assumes elems: "\<And>x n rest. x \<in> set xs \<Longrightarrow> length (JSON_stringify x) \<le> n \<Longrightarrow> follow_ok rest
            \<Longrightarrow> parse_value n (JSON_stringify x @ rest) = Some (x, rest)"
    and "xs \<noteq> []"
    and "length (join '','' (map JSON_stringify xs)) < m"
  shows "parse_elements m (join '','' (map JSON_stringify xs) @ CHR '']'' # rest) = Some (xs, rest)"
  using assms
proof (induction xs arbitrary: m)
  case Nil
  then show ?case by simp
next
  case (Cons x xs)
  note each = Cons.prems(1) and len = Cons.prems(3) and IH = Cons.IH
  from len obtain k where m: "m = Suc k" by (cases m) auto
  show ?case
  proof (cases xs)
    case Nil
    with len m have "length (JSON_stringify x) \<le> k" by simp
    then have "parse_value k (JSON_stringify x @ CHR '']'' # rest) = Some (x, CHR '']'' # rest)"
      by (intro each) simp_all
    with Nil m show ?thesis by simp
  next
    case (Cons y ys)
    with len m have lx: "length (JSON_stringify x) \<le> k"
      and lr: "length (join '','' (map JSON_stringify xs)) < k" by simp_all
    have px: "parse_value k (JSON_stringify x @ CHR '','' # join '','' (map JSON_stringify xs) @ CHR '']'' # rest)
          = Some (x, CHR '','' # join '','' (map JSON_stringify xs) @ CHR '']'' # rest)"
      using lx by (intro each) simp_all
    have "parse_elements k (join '','' (map JSON_stringify xs) @ CHR '']'' # rest) = Some (xs, rest)"
    proof (rule IH)
      show "xs \<noteq> []" using Cons by simp
      show "length (join '','' (map JSON_stringify xs)) < k" by (rule lr)
    qed (rule each, simp_all)
    with px Cons m show ?thesis by simp
  qed
qed

lemma parse_members_join:
  assumes elems: "\<And>k x n rest. (k, x) \<in> set ms \<Longrightarrow> length (JSON_stringify x) \<le> n \<Longrightarrow> follow_ok rest
            \<Longrightarrow> parse_value n (JSON_stringify x @ rest) = Some (x, rest)"
    and "ms \<noteq> []"
    and "length (join '','' (map member_text ms)) < m"
  shows "parse_members m (join '','' (map member_text ms) @ CHR ''}'' # rest) = Some (ms, rest)"
  using assms
proof (induction ms arbitrary: m)
  case Nil
  then show ?case by simp
next
  case (Cons kv ms)
  note each = Cons.prems(1) and len = Cons.prems(3) and IH = Cons.IH
  obtain key x where kv: "kv = (key, x)" by (cases kv)
  from len obtain j where m: "m = Suc j" by (cases m) auto
  show ?case
  proof (cases ms)
    case Nil
    with len m kv have "length (JSON_stringify x) \<le> j"
      by (simp add: member_text_def)
    then have "parse_value j (JSON_stringify x @ CHR ''}'' # rest) = Some (x, CHR ''}'' # rest)"
      using kv by (intro each [of key]) simp_all
    with Nil m kv show ?thesis
      by (simp add: member_text_def quote_def parse_chars_quote)
  next
    case (Cons y ys)
    with len m kv have lx: "length (JSON_stringify x) \<le> j"
      and lr: "length (join '','' (map member_text ms)) < j"
      by (simp_all add: member_text_def)
    have px: "parse_value j (JSON_stringify x @ CHR '','' # join '','' (map member_text ms) @ CHR ''}'' # rest)
          = Some (x, CHR '','' # join '','' (map member_text ms) @ CHR ''}'' # rest)"
      using lx kv by (intro each [of key]) simp_all
    have "parse_members j (join '','' (map member_text ms) @ CHR ''}'' # rest) = Some (ms, rest)"
    proof (rule IH)
      show "ms \<noteq> []" using Cons by simp
      show "length (join '','' (map member_text ms)) < j" by (rule lr)
    next
      fix k' x' n' rest'
      assume "(k', x') \<in> set ms" "length (JSON_stringify x') \<le> n'" "follow_ok rest'"
      then show "parse_value n' (JSON_stringify x' @ rest') = Some (x', rest')"
        by (intro each [of k']) simp_all
    qed
    with px Cons m kv show ?thesis
      by (simp add: member_text_def quote_def parse_chars_quote)
  qed
qed

lemma parse_value_stringify:
  "length (JSON_stringify v) \<le> n \<Longrightarrow> follow_ok rest
     \<Longrightarrow> parse_value n (JSON_stringify v @ rest) = Some (v, rest)"
proof (induction v arbitrary: n rest)
  case JNull
  then obtain k where "n = Suc k" by (cases n) auto
  then show ?case by simp
next
  case (JBool b)
  then obtain k where "n = Suc k" by (cases n; cases b) auto
  then show ?case by simp
next
  case (JNum i)
  obtain c t where "number_text i = c # t" using number_text_head by blast
  with JNum obtain k where "n = Suc k" by (cases n) auto
  with JNum show ?case by (simp del: parse_value.simps add: parse_value_number)
next
  case (JStr s)
  then obtain k where "n = Suc k" by (cases n) (auto simp: quote_def)
  then show ?case by (simp add: quote_def parse_chars_quote)
next
  case (JArr xs)
  from JArr.prems obtain k where n: "n = Suc k" by (cases n) auto
  show ?case
  proof (cases xs)
    case Nil
    with n show ?thesis by simp
  next
    case (Cons y ys)
    obtain c t where ct: "JSON_stringify y = c # t" "c \<noteq> CHR '']''"
      using stringify_head by blast
    have hd: "\<exists>t'. join '','' (map JSON_stringify xs) = c # t'"
      using Cons ct(1) by (cases ys) simp_all
    then obtain t' where t': "join '','' (map JSON_stringify xs) = c # t'" by blast
    from JArr.prems(1) n have "length (join '','' (map JSON_stringify xs)) < k" by simp
    then have "parse_elements k (join '','' (map JSON_stringify xs) @ CHR '']'' # rest) = Some (xs, rest)"
      using Cons JArr.IH by (intro parse_elements_join) simp_all
    with n t' ct(2) show ?thesis by simp
  qed
next
  case (JObj ms)
  from JObj.prems obtain j where n: "n = Suc j" by (cases n) auto
  have obj_text: "JSON_stringify (JObj ms) = CHR ''{'' # join '','' (map member_text ms) @ ''}''"
    by (simp add: member_text_def)
  show ?case
  proof (cases ms)
    case Nil
    with n show ?thesis by simp
  next
    case (Cons kv ys)
    obtain key y where kv: "kv = (key, y)" by (cases kv)
    have "\<exists>t'. join '','' (map member_text ms) = CHR 0x22 # t'"
      using Cons kv by (cases ys) (simp_all add: member_text_def quote_def)
    then obtain t' where t': "join '','' (map member_text ms) = CHR 0x22 # t'" by blast
    from JObj.prems(1) n have lj: "length (join '','' (map member_text ms)) < j"
      unfolding obj_text by simp
    have each: "parse_value n' (JSON_stringify x' @ rest') = Some (x', rest')"
      if "(k', x') \<in> set ms" "length (JSON_stringify x') \<le> n'" "follow_ok rest'"
      for k' x' n' rest'
      using that by (intro JObj.IH [of "(k', x')" x']) simp_all
    from lj have "parse_members j (join '','' (map member_text ms) @ CHR ''}'' # rest) = Some (ms, rest)"
      using Cons each by (intro parse_members_join) simp_all
    with n t' show ?thesis unfolding obj_text by simp
  qed
qed

text \<open>Every JSON value is read back from its text.\<close>

lemma JSON_parse_stringify: "JSON_parse (JSON_stringify v) = Inr v"
  using parse_value_stringify [of v "length (JSON_stringify v)" "[]"]
  by (simp add: JSON_parse_def)

section \<open>Facts about the operations\<close>

subsection \<open>Small JSON texts\<close>

lemma JSON_parse_null: "JSON_parse ''null'' = Inr JNull"
  using JSON_parse_stringify [of JNull] by simp

lemma JSON_parse_empty_array: "JSON_parse ''[]'' = Inr (JArr [])"
  using JSON_parse_stringify [of "JArr []"] by simp

lemma stringify_one: "JSON_stringify (JNum 1) = ''1''"
  by code_simp

lemma number_text_5: "number_text 5 = ''5''"
  by code_simp

lemma stringify_not_Nil: "JSON_stringify v \<noteq> []"
  using stringify_head [of v] by auto

subsection \<open>The metadata cursor\<close>

text \<open>
  What \<open>MetadataCursor_setValue\<close> does: it skips the write exactly when the value is
  the string whose characters are the stored text; otherwise it stores the text of the
  value and calls the callback once, and the value is then read back.
\<close>

lemma setValue_notifies:
  "snd (MetadataCursor_setValue cur v m) =
     (if strict_equals_text (m (cursor_name cur)) v then [] else [cursor_name cur])"
  by (simp add: MetadataCursor_setValue_def Let_def)

lemma getValue_absent:
  "m (cursor_name cur) = None \<Longrightarrow> MetadataCursor_getValue cur m = Inr JNull"
  by (simp add: MetadataCursor_getValue_def JSON_parse_null)

lemma setValue_getValue:
  "\<not> strict_equals_text (m (cursor_name cur)) v \<Longrightarrow>
     MetadataCursor_getValue cur (fst (MetadataCursor_setValue cur v m)) = Inr v"
  by (simp add: MetadataCursor_setValue_def MetadataCursor_getValue_def Let_def
      stringify_not_Nil JSON_parse_stringify)

subsection \<open>Reserved metadata names\<close>

lemma indexOf_from_notin: "x \<notin> set xs \<Longrightarrow> indexOf_from xs x i = - 1"
  by (induction xs arbitrary: i) auto

lemma indexOf_from_in:
  "x \<in> set xs \<Longrightarrow> 0 \<le> i \<Longrightarrow>
     i \<le> indexOf_from xs x i \<and> nat (indexOf_from xs x i - i) < length xs
     \<and> xs ! nat (indexOf_from xs x i - i) = x"
proof (induction xs arbitrary: i)
  case Nil
  then show ?case by simp
next
  case (Cons y ys)
  show ?case
  proof (cases "y = x")
    case True
    then show ?thesis by simp
  next
    case False
    with Cons.prems have "x \<in> set ys" by simp
    from Cons.IH [OF this, of "i + 1"] Cons.prems(2)
    have ih: "i + 1 \<le> indexOf_from ys x (i + 1)"
      "ys ! nat (indexOf_from ys x (i + 1) - (i + 1)) = x"
      "nat (indexOf_from ys x (i + 1) - (i + 1)) < length ys" by simp_all
    have "nat (indexOf_from ys x (i + 1) - i) = Suc (nat (indexOf_from ys x (i + 1) - (i + 1)))"
      using ih(1) by simp
    with ih False show ?thesis by simp
  qed
qed

lemma indexOf_found: "x \<in> set xs \<Longrightarrow> indexOf xs x \<noteq> - 1 \<and> xs ! nat (indexOf xs x) = x"
  using indexOf_from_in [of x xs 0] by (auto simp: indexOf_def)

lemma indexOf_missing: "x \<notin> set xs \<Longrightarrow> indexOf xs x = - 1"
  by (simp add: indexOf_def indexOf_from_notin)

lemma NotebookModel_getMetadata_eq:
  "NotebookModel_getMetadata key nb =
     (if key \<in> {''kernelspec'', ''languageInfo'', ''origNbformat''}
      then Inl (Error (''Use model attribute for '' @ key @ '' directly''))
      else Inr \<lparr>cursor_name = key\<rparr>)"
proof (cases "key \<in> set [''kernelspec'', ''languageInfo'', ''origNbformat'']")
  case True
  from indexOf_found [OF this] True show ?thesis
    by (simp add: NotebookModel_getMetadata_def Let_def)
next
  case False
  from indexOf_missing [OF this] False show ?thesis
    by (simp add: NotebookModel_getMetadata_def Let_def)
qed

lemma BaseCellModel_getMetadata_eq:
  "BaseCellModel_getMetadata key c =
     (if key \<in> {''tags'', ''name'', ''trusted'', ''collapsed'', ''scrolled'',
                 ''execution_count'', ''format''}
      then Inl (Error (''Use model attribute for '' @ key @ '' directly''))
      else Inr \<lparr>cursor_name = key\<rparr>)"
proof (cases "key \<in> set [''tags'', ''name'', ''trusted'', ''collapsed'', ''scrolled'',
                 ''execution_count'', ''format'']")
  case True
  from indexOf_found [OF this] True show ?thesis
    by (simp add: BaseCellModel_getMetadata_def Let_def)
next
  case False
  from indexOf_missing [OF this] False show ?thesis
    by (simp add: BaseCellModel_getMetadata_def Let_def)
qed

subsection \<open>The result of each setter\<close>















subsection \<open>The results of the setters the factory calls\<close>

lemma copy_outputs_appends:
  "c_output cell = Some co \<Longrightarrow>
   copy_outputs i so cell =
     Inr (cell\<lparr>c_output := Some (co\<lparr>oa_outputs := oa_outputs co @ drop i (oa_outputs so)\<rparr>)\<rparr>)"
proof (induction i so cell arbitrary: co rule: copy_outputs.induct)
  case (1 i so cell)
  show ?case
  proof (cases "i < length (oa_outputs so)")
    case True
    let ?cell = "cell\<lparr>c_output := Some (outputs_add (oa_outputs so ! i) co)\<rparr>"
    have "copy_outputs (i + 1) so ?cell =
            Inr (?cell\<lparr>c_output := Some ((outputs_add (oa_outputs so ! i) co)
                   \<lparr>oa_outputs := oa_outputs (outputs_add (oa_outputs so ! i) co)
                                   @ drop (i + 1) (oa_outputs so)\<rparr>)\<rparr>)"
      using True "1.prems" by (intro "1.IH") simp_all
    moreover have "oa_outputs so ! i # drop (Suc i) (oa_outputs so) = drop i (oa_outputs so)"
      using True by (simp add: Cons_nth_drop_Suc)
    ultimately show ?thesis
      using True "1.prems"
      by (subst copy_outputs.simps) (simp add: outputs_add_def)
  next
    case False
    with "1.prems" show ?thesis
      by (subst copy_outputs.simps) simp
  qed
qed

lemma CodeCellModel_set_trusted_result:
  "c_output c = Some out \<Longrightarrow>
   CodeCellModel_set_trusted b c =
     Inr (if b = c_trusted c then (c, [])
          else (c\<lparr>c_trusted := b, c_output := Some (out\<lparr>oa_trusted := b\<rparr>)\<rparr>,
                [(c\<lparr>c_trusted := b, c_output := Some (out\<lparr>oa_trusted := b\<rparr>)\<rparr>,
                  \<lparr>name = ''trusted'', oldValue = JBool (c_trusted c), newValue = JBool b\<rparr>)]))"
  by (simp add: CodeCellModel_set_trusted_def BaseCellModel_set_trusted_def
      CodeCellModel_onTrustChanged_def OutputAreaModel_set_trusted_def Let_def then_do_def)

lemma set_source_fst:
  "fst (BaseCellModel_set_source s c) = c\<lparr>c_source := s\<rparr>"
  by (simp add: BaseCellModel_set_source_def Let_def)

lemma set_collapsed_fst:
  "fst (CodeCellModel_set_collapsed b c) = c\<lparr>c_collapsed := b\<rparr>"
  by (auto simp: CodeCellModel_set_collapsed_def Let_def)

lemma set_scrolled_fst:
  "fst (CodeCellModel_set_scrolled s c) = c\<lparr>c_scrolled := s\<rparr>"
  by (auto simp: CodeCellModel_set_scrolled_def Let_def)

lemma set_tags_fresh:
  assumes "shallowEquals (JArr []) t = Inr equal"
    and "equal \<Longrightarrow> t = JArr []"
    and "c_tags c = ''[]''"
  shows "\<exists>c' ev. BaseCellModel_set_tags shallowEquals t c = Inr (c', ev)
           \<and> BaseCellModel_tags c' = Inr t
           \<and> c' = c\<lparr>c_tags := c_tags c'\<rparr>"
proof (cases equal)
  case True
  with assms(2) have "t = JArr []" by simp
  with True assms(1,3) show ?thesis
    by (simp add: BaseCellModel_set_tags_def BaseCellModel_tags_def JSON_parse_empty_array
        then_do_def)
next
  case False
  with assms(1,3) show ?thesis
    by (simp add: BaseCellModel_set_tags_def BaseCellModel_tags_def JSON_parse_empty_array
        JSON_parse_stringify then_do_def Let_def del: JSON_stringify.simps)
qed

subsection \<open>Calls of dispose on cells in the heap\<close>

lemma ICellModel_dispose_id: "ICellModel_dispose m = Inr m"
  by (cases m)
     (simp_all add: ICellModel_dispose_def CodeCellModel_dispose_def BaseCellModel_dispose_def
        BaseCellModel_isDisposed_def then_do_def)

lemma cell_dispose_call:
  "heap w r = Some c \<Longrightarrow>
   cell_dispose r w = Inr (w\<lparr>heap := (heap w)(r \<mapsto> c), dispose_calls := dispose_calls w @ [r]\<rparr>)"
  by (simp add: cell_dispose_def ICellModel_dispose_id then_do_def)

lemma cell_dispose_keeps_cell:
  "heap w r = Some c \<Longrightarrow>
   cell_dispose r w = Inr (w\<lparr>dispose_calls := dispose_calls w @ [r]\<rparr>)"
  by (simp add: cell_dispose_call map_upd_triv)

lemma dispose_each_calls:
  "set rs \<subseteq> dom (heap w) \<Longrightarrow>
   \<exists>w'. dispose_each rs w = Inr w' \<and> dispose_calls w' = dispose_calls w @ rs
        \<and> dom (heap w') = dom (heap w)"
proof (induction rs arbitrary: w)
  case Nil
  then show ?case by simp
next
  case (Cons r rs)
  then obtain c where c: "heap w r = Some c" by auto
  let ?w = "w\<lparr>heap := (heap w)(r \<mapsto> c), dispose_calls := dispose_calls w @ [r]\<rparr>"
  have "set rs \<subseteq> dom (heap ?w)" using Cons.prems by auto
  from Cons.IH [OF this] obtain w' where
    "dispose_each rs ?w = Inr w'" "dispose_calls w' = dispose_calls ?w @ rs"
    "dom (heap w') = dom (heap ?w)" by blast
  with c show ?case
    by (auto simp: cell_dispose_call then_do_def)
qed

section \<open>The properties of the specification\<close>

text \<open>
  C1. \<^verbatim>\<open>MetadataCursor.setValue(v)\<close> is specified to compare the serialized form of
  \<open>v\<close> with the serialized form stored for the namespace, and to store and call the
  callback only if the two differ, so that writing structurally equal values twice calls
  the callback at most once. The method compares the stored text with the value itself
  (\<^verbatim>\<open>prev === value\<close>). Writing the number 1 twice through a cursor on a fresh map: after
  the first write the stored text is the serialization of 1, and the second write of 1
  calls the callback again.
\<close>

theorem C1_setValue_same_value_notifies_twice:
  "snd (MetadataCursor_setValue \<lparr>cursor_name = ''myext''\<rparr> (JNum 1) Map.empty) = [''myext'']
   \<and> fst (MetadataCursor_setValue \<lparr>cursor_name = ''myext''\<rparr> (JNum 1) Map.empty) ''myext''
       = Some (JSON_stringify (JNum 1))
   \<and> snd (MetadataCursor_setValue \<lparr>cursor_name = ''myext''\<rparr> (JNum 1)
            (fst (MetadataCursor_setValue \<lparr>cursor_name = ''myext''\<rparr> (JNum 1) Map.empty)))
       = [''myext'']"
  by (simp add: MetadataCursor_setValue_def strict_equals_text_def Let_def)

text \<open>
  C2. \<^verbatim>\<open>CodeCellModel.dispose()\<close> is specified to dispose the owned output collection
  and then clear the signal subscriptions of the cell. \<^verbatim>\<open>isDisposed\<close> returns the
  constant \<^verbatim>\<open>true\<close>, so the method returns at its first statement: on a new code cell
  with an output collection and one connection, no call of dispose is made on the
  collection, which stays undisposed, and the connection stays.
\<close>

theorem C2_dispose_releases_nothing:
  "CodeCellModel_dispose
     ((CodeCellModel_new (Some OutputAreaModel_new))\<lparr>c_signalData := [(''stateChanged'', 0)]\<rparr>)
   = Inr ((CodeCellModel_new (Some OutputAreaModel_new))\<lparr>c_signalData := [(''stateChanged'', 0)]\<rparr>,
          None)
   \<and> map_option oa_disposed
        (c_output ((CodeCellModel_new (Some OutputAreaModel_new))
                     \<lparr>c_signalData := [(''stateChanged'', 0)]\<rparr>)) = Some False
   \<and> c_signalData ((CodeCellModel_new (Some OutputAreaModel_new))
                     \<lparr>c_signalData := [(''stateChanged'', 0)]\<rparr>) = [(''stateChanged'', 0)]"
  by (simp add: CodeCellModel_dispose_def BaseCellModel_isDisposed_def CodeCellModel_new_def
      OutputAreaModel_new_def)

text \<open>
  C3. The \<^verbatim>\<open>isDisposed\<close> getter of every cell is true at every moment, also on a cell
  just constructed, and so every call of \<^verbatim>\<open>dispose()\<close>, on a base cell, on a code cell
  and through \<^verbatim>\<open>ICellModel\<close>, takes the early return and changes nothing.
\<close>

theorem C3_isDisposed_always_true:
  "BaseCellModel_isDisposed c
   \<and> BaseCellModel_isDisposed MarkdownCellModel_new
   \<and> BaseCellModel_isDisposed (CodeCellModel_new out)
   \<and> BaseCellModel_isDisposed RawCellModel_new
   \<and> BaseCellModel_dispose c = c
   \<and> CodeCellModel_dispose cc = Inr (cc, None)
   \<and> ICellModel_dispose m = Inr m"
  by (cases m)
     (simp_all add: BaseCellModel_isDisposed_def BaseCellModel_dispose_def
        CodeCellModel_dispose_def ICellModel_dispose_def then_do_def)

theorem C3_witness:
  "BaseCellModel_isDisposed (CodeCellModel_new (Some OutputAreaModel_new))
   \<and> CodeCellModel_dispose (CodeCellModel_new (Some OutputAreaModel_new))
       = Inr (CodeCellModel_new (Some OutputAreaModel_new), None)"
  using C3_isDisposed_always_true
    [of "CodeCellModel_new (Some OutputAreaModel_new)" "Some OutputAreaModel_new"
        "CodeCellModel_new (Some OutputAreaModel_new)"]
  by simp




text \<open>
  C5, as stated: on both a notebook and a cell, \<^verbatim>\<open>getMetadata('kernelspec')\<close> and
  \<^verbatim>\<open>getMetadata('tags')\<close> fail. Each model reserves only the names of its own typed
  attributes: a notebook hands out a cursor named tags, a cell one named kernelspec.
\<close>

theorem C5_getMetadata_counterexample:
  "NotebookModel_getMetadata ''tags'' NotebookModel_new = Inr \<lparr>cursor_name = ''tags''\<rparr>
   \<and> BaseCellModel_getMetadata ''kernelspec'' MarkdownCellModel_new
       = Inr \<lparr>cursor_name = ''kernelspec''\<rparr>"
  by (simp add: NotebookModel_getMetadata_eq BaseCellModel_getMetadata_eq)

text \<open>
  C5, amended: on a notebook \<^verbatim>\<open>getMetadata('kernelspec')\<close> fails, and on a cell
  \<^verbatim>\<open>getMetadata('tags')\<close> fails, each with an error whose message names the key;
  \<^verbatim>\<open>getMetadata('myext')\<close> returns a cursor on both, as do \<^verbatim>\<open>getMetadata('tags')\<close>
  on a notebook and \<^verbatim>\<open>getMetadata('kernelspec')\<close> on a cell.
\<close>

theorem C5_getMetadata_reserved_names:
  "NotebookModel_getMetadata ''kernelspec'' nb
     = Inl (Error ''Use model attribute for kernelspec directly'')
   \<and> BaseCellModel_getMetadata ''tags'' c
     = Inl (Error ''Use model attribute for tags directly'')
   \<and> NotebookModel_getMetadata ''myext'' nb = Inr \<lparr>cursor_name = ''myext''\<rparr>
   \<and> BaseCellModel_getMetadata ''myext'' c = Inr \<lparr>cursor_name = ''myext''\<rparr>
   \<and> NotebookModel_getMetadata ''tags'' nb = Inr \<lparr>cursor_name = ''tags''\<rparr>
   \<and> BaseCellModel_getMetadata ''kernelspec'' c = Inr \<lparr>cursor_name = ''kernelspec''\<rparr>"
  by (simp add: NotebookModel_getMetadata_eq BaseCellModel_getMetadata_eq)

theorem C5_witness:
  "NotebookModel_getMetadata ''kernelspec'' NotebookModel_new
     = Inl (Error ''Use model attribute for kernelspec directly'')
   \<and> BaseCellModel_getMetadata ''tags'' (CodeCellModel_new None)
     = Inl (Error ''Use model attribute for tags directly'')
   \<and> NotebookModel_getMetadata ''myext'' NotebookModel_new = Inr \<lparr>cursor_name = ''myext''\<rparr>
   \<and> BaseCellModel_getMetadata ''myext'' (CodeCellModel_new None)
     = Inr \<lparr>cursor_name = ''myext''\<rparr>"
  using C5_getMetadata_reserved_names [of NotebookModel_new "CodeCellModel_new None"]
  by simp

text \<open>
  C6. \<^verbatim>\<open>setValue(v)\<close> followed by \<^verbatim>\<open>getValue()\<close> is specified to return a value
  structurally equal to \<open>v\<close>, for every cursor and every JSON value. The comparison
  \<^verbatim>\<open>prev === value\<close> of \<^verbatim>\<open>setValue\<close> skips the write when \<open>v\<close> is the string that
  equals the stored text: after writing the number 1, writing the string \<^verbatim>\<open>"1"\<close> stores
  nothing, and \<^verbatim>\<open>getValue()\<close> returns the number 1.
\<close>

theorem C6_setValue_getValue_returns_other_value:
  "MetadataCursor_getValue \<lparr>cursor_name = ''myext''\<rparr>
     (fst (MetadataCursor_setValue \<lparr>cursor_name = ''myext''\<rparr> (JStr ''1'')
        (fst (MetadataCursor_setValue \<lparr>cursor_name = ''myext''\<rparr> (JNum 1) Map.empty))))
   = Inr (JNum 1)"
  using JSON_parse_stringify [of "JNum 1"]
  by (simp add: MetadataCursor_setValue_def MetadataCursor_getValue_def strict_equals_text_def
      Let_def stringify_one del: JSON_stringify.simps)

text \<open>
  C7. \<^verbatim>\<open>createCodeCell(s)\<close> returns a code cell with the trusted flag, the source and
  the tags of \<open>s\<close>. If \<open>s\<close> is a code cell, the new cell also has its collapsed and
  scrolled values, and its output collection holds the outputs of \<open>s\<close> in the same
  order; if \<open>s\<close> is a markdown or raw cell, the execution count is null, collapsed and
  scrolled are false and the output collection is empty. Here the tags getter of \<open>s\<close>
  returns a value, a code cell \<open>s\<close> owns an output collection, and the
  comparison of the empty array with the tags of \<open>s\<close> by \<^verbatim>\<open>shallowEquals\<close>
  returns, with the answer true only if they are the empty array.
\<close>

theorem C7_createCodeCell_copies_source_cell:
  assumes cmp: "shallowEquals (JArr []) t = Inr equal"
    and se: "equal \<Longrightarrow> t = JArr []"
    and tags: "ICellModel_tags s = Inr t"
    and out: "\<And>sc. s = CodeCell sc \<Longrightarrow> c_output sc \<noteq> None"
  shows "\<exists>cell. NotebookModel_createCodeCell shallowEquals (Some s) = Inr cell
           \<and> c_trusted cell = ICellModel_trusted s
           \<and> c_source cell = ICellModel_source s
           \<and> BaseCellModel_tags cell = Inr t
           \<and> (case s of
                 CodeCell sc \<Rightarrow>
                   c_collapsed cell = c_collapsed sc
                   \<and> c_scrolled cell = c_scrolled sc
                   \<and> map_option oa_outputs (c_output cell) = map_option oa_outputs (c_output sc)
               | _ \<Rightarrow>
                   c_executionCount cell = None
                   \<and> c_collapsed cell = False
                   \<and> c_scrolled cell = ScrollBool False
                   \<and> map_option oa_outputs (c_output cell) = Some [])"
proof -
  let ?out = "OutputAreaModel_new\<lparr>oa_trusted := True\<rparr>"
  let ?c1 = "(CodeCellModel_new (Some OutputAreaModel_new))\<lparr>c_trusted := True, c_output := Some ?out\<rparr>"
  have r1: "CodeCellModel_set_trusted True (CodeCellModel_new (Some NotebookModel_createOutputArea))
              = Inr (?c1, [(?c1, \<lparr>name = ''trusted'', oldValue = JBool False, newValue = JBool True\<rparr>)])"
    by (simp add: CodeCellModel_set_trusted_result [where out = OutputAreaModel_new]
        NotebookModel_createOutputArea_def CodeCellModel_new_def)
  define b where "b = ICellModel_trusted s"
  define c2 where "c2 = ?c1\<lparr>c_trusted := b, c_output := Some (?out\<lparr>oa_trusted := b\<rparr>)\<rparr>"
  have r2: "\<exists>ev. CodeCellModel_set_trusted b ?c1 = Inr (c2, ev)"
    by (cases b) (simp_all add: CodeCellModel_set_trusted_result [where out = ?out] c2_def
        CodeCellModel_new_def OutputAreaModel_new_def)
  then obtain ev2 where ev2: "CodeCellModel_set_trusted b ?c1 = Inr (c2, ev2)" by blast
  define c3 where "c3 = c2\<lparr>c_source := ICellModel_source s\<rparr>"
  have c3_tags: "c_tags c3 = ''[]''"
    by (simp add: c3_def c2_def CodeCellModel_new_def)
  from set_tags_fresh [of shallowEquals t equal c3, OF cmp se c3_tags] obtain c4 ev4
    where r4: "BaseCellModel_set_tags shallowEquals t c3 = Inr (c4, ev4)"
      and t4: "BaseCellModel_tags c4 = Inr t"
      and c4: "c4 = c3\<lparr>c_tags := c_tags c4\<rparr>" by blast
  have f4: "c_trusted c4 = b" "c_source c4 = ICellModel_source s"
    "c_collapsed c4 = False" "c_scrolled c4 = ScrollBool False" "c_executionCount c4 = None"
    "c_output c4 = Some (?out\<lparr>oa_trusted := b\<rparr>)"
    by (subst c4, simp add: c3_def c2_def CodeCellModel_new_def)+
  have start: "NotebookModel_createCodeCell shallowEquals (Some s) =
      (if isCodeCellModel s then
         (case s of
            CodeCell sc \<Rightarrow>
              (case c_output sc of
                 None \<Rightarrow> Inl TypeError
               | Some so \<Rightarrow> copy_outputs 0 so (c4\<lparr>c_collapsed := c_collapsed sc, c_scrolled := c_scrolled sc\<rparr>))
          | _ \<Rightarrow> Inl TypeError)
       else Inr c4)"
    unfolding NotebookModel_createCodeCell_def Let_def r1
    by (simp add: then_do_def b_def [symmetric] ev2 set_source_fst c3_def [symmetric] tags r4
        set_collapsed_fst set_scrolled_fst split: ICellModel.split option.split)
  show ?thesis
  proof (cases s)
    case (CodeCell sc)
    with out obtain so where so: "c_output sc = Some so" by fastforce
    let ?c6 = "c4\<lparr>c_collapsed := c_collapsed sc, c_scrolled := c_scrolled sc\<rparr>"
    have "copy_outputs 0 so ?c6 =
            Inr (?c6\<lparr>c_output := Some ((?out\<lparr>oa_trusted := b\<rparr>)
                    \<lparr>oa_outputs := oa_outputs (?out\<lparr>oa_trusted := b\<rparr>) @ drop 0 (oa_outputs so)\<rparr>)\<rparr>)"
      by (rule copy_outputs_appends) (simp add: f4)
    with CodeCell so start show ?thesis
      by (simp add: isCodeCellModel_def cell_type_def f4 t4 [unfolded BaseCellModel_tags_def]
          b_def BaseCellModel_tags_def OutputAreaModel_new_def)
  next
    case (MarkdownCell mc)
    with start show ?thesis
      by (simp add: isCodeCellModel_def cell_type_def f4 t4 b_def OutputAreaModel_new_def)
  next
    case (RawCell rc)
    with start show ?thesis
      by (simp add: isCodeCellModel_def cell_type_def f4 t4 b_def OutputAreaModel_new_def)
  qed
qed

theorem C7_witness:
  "ICellModel_tags (CodeCell ((CodeCellModel_new
       (Some (OutputAreaModel_new\<lparr>oa_outputs := [JNum 1, JNum 2]\<rparr>)))
       \<lparr>c_source := Some ''x'', c_tags := JSON_stringify (JArr [JStr ''a'']),
        c_trusted := True, c_collapsed := True\<rparr>))
     = Inr (JArr [JStr ''a''])
   \<and> (\<exists>cell. NotebookModel_createCodeCell null_unsafe_equals
         (Some (CodeCell ((CodeCellModel_new
            (Some (OutputAreaModel_new\<lparr>oa_outputs := [JNum 1, JNum 2]\<rparr>)))
            \<lparr>c_source := Some ''x'', c_tags := JSON_stringify (JArr [JStr ''a'']),
             c_trusted := True, c_collapsed := True\<rparr>)))
         = Inr cell
       \<and> c_trusted cell = True
       \<and> c_source cell = Some ''x''
       \<and> BaseCellModel_tags cell = Inr (JArr [JStr ''a''])
       \<and> c_collapsed cell = True
       \<and> c_scrolled cell = ScrollBool False
       \<and> map_option oa_outputs (c_output cell) = Some [JNum 1, JNum 2])"
proof -
  let ?s = "CodeCell ((CodeCellModel_new
       (Some (OutputAreaModel_new\<lparr>oa_outputs := [JNum 1, JNum 2]\<rparr>)))
       \<lparr>c_source := Some ''x'', c_tags := JSON_stringify (JArr [JStr ''a'']),
        c_trusted := True, c_collapsed := True\<rparr>)"
  have h0: "null_unsafe_equals (JArr []) (JArr [JStr ''a'']) = Inr False"
    by (simp add: null_unsafe_equals_def has_members_def)
  have h1: "False \<Longrightarrow> JArr [JStr ''a''] = JArr []" by simp
  have h2: "ICellModel_tags ?s = Inr (JArr [JStr ''a''])"
    by (simp add: ICellModel_tags_def BaseCellModel_tags_def CodeCellModel_new_def
        JSON_parse_stringify del: JSON_stringify.simps)
  have h3: "\<And>sc. ?s = CodeCell sc \<Longrightarrow> c_output sc \<noteq> None"
    by (auto simp: CodeCellModel_new_def)
  show ?thesis
    using h2 C7_createCodeCell_copies_source_cell
      [of null_unsafe_equals "JArr [JStr ''a'']" False ?s, OF h0 h1 h2 h3]
    by (simp add: ICellModel_trusted_def ICellModel_source_def CodeCellModel_new_def
        OutputAreaModel_new_def del: JSON_stringify.simps)
qed

text \<open>
  C8. The notebook is specified to dispose a cell exactly once when it is removed from the
  cell list, and to dispose the cell held before when a cell of the list is replaced.
  The list reports \<^verbatim>\<open>cells.set(i, cell)\<close> as a change of type Set, for which the switch
  of \<^verbatim>\<open>onCellsChanged\<close> has no case: on a notebook holding a code cell (reference 1),
  replaced through \<^verbatim>\<open>set\<close> by a markdown cell (reference 2), the handler makes no call
  of \<^verbatim>\<open>dispose()\<close> and leaves the heap as it is. When the code cell is removed instead,
  the handler calls \<^verbatim>\<open>dispose()\<close> on it once, and the call returns at the test of
  \<^verbatim>\<open>isDisposed\<close>: the cell in the heap is the same as before, with its output collection
  not disposed and its connection in place.
\<close>

theorem C8_replaced_or_removed_cell_keeps_its_resources:
  "NotebookModel_onCellsChanged
     \<lparr>change_type = Set, change_newIndex = 0, change_newValue = Item 2,
      change_oldIndex = 0, change_oldValue = Item 1\<rparr>
     \<lparr>heap = [1 \<mapsto> CodeCell ((CodeCellModel_new (Some OutputAreaModel_new))
                                  \<lparr>c_signalData := [(''stateChanged'', 0)]\<rparr>),
                 2 \<mapsto> MarkdownCell MarkdownCellModel_new],
         dispose_calls = []\<rparr>
   = Inr \<lparr>heap = [1 \<mapsto> CodeCell ((CodeCellModel_new (Some OutputAreaModel_new))
                                  \<lparr>c_signalData := [(''stateChanged'', 0)]\<rparr>),
                 2 \<mapsto> MarkdownCell MarkdownCellModel_new],
         dispose_calls = []\<rparr>
   \<and> NotebookModel_onCellsChanged
     \<lparr>change_type = Remove, change_newIndex = - 1, change_newValue = NoValue,
      change_oldIndex = 0, change_oldValue = Item 1\<rparr>
     \<lparr>heap = [1 \<mapsto> CodeCell ((CodeCellModel_new (Some OutputAreaModel_new))
                                  \<lparr>c_signalData := [(''stateChanged'', 0)]\<rparr>),
                 2 \<mapsto> MarkdownCell MarkdownCellModel_new],
         dispose_calls = []\<rparr>
   = Inr \<lparr>heap = [1 \<mapsto> CodeCell ((CodeCellModel_new (Some OutputAreaModel_new))
                                  \<lparr>c_signalData := [(''stateChanged'', 0)]\<rparr>),
                 2 \<mapsto> MarkdownCell MarkdownCellModel_new],
         dispose_calls = [1]\<rparr>
   \<and> c_disposed ((CodeCellModel_new (Some OutputAreaModel_new))
                   \<lparr>c_signalData := [(''stateChanged'', 0)]\<rparr>) = False
   \<and> map_option oa_disposed
        (c_output ((CodeCellModel_new (Some OutputAreaModel_new))
                     \<lparr>c_signalData := [(''stateChanged'', 0)]\<rparr>)) = Some False
   \<and> c_signalData ((CodeCellModel_new (Some OutputAreaModel_new))
                     \<lparr>c_signalData := [(''stateChanged'', 0)]\<rparr>) = [(''stateChanged'', 0)]"
  by (simp add: NotebookModel_onCellsChanged_def cell_dispose_keeps_cell CodeCellModel_new_def
      OutputAreaModel_new_def)

text \<open>
  C9. On a code cell whose execution count is null, setting the count to 5 and then back
  to null emits two change records, null to 5 and 5 to null. The cell model with an input
  area derives the prompt from the count: it is \<^verbatim>\<open>In [ ]:\<close> on a new cell and after the
  count is set to null, and \<^verbatim>\<open>In [5]:\<close> after it is set to 5; the change of the prompt
  is not emitted again on the cell's signal.
\<close>

theorem C9_executionCount_toggle:
  assumes "c_executionCount c = None" and "cia_executionCount d = None"
  shows
    "emitted (CodeCellModel_set_executionCount (Some 5) c)
       = [\<lparr>name = ''executionCount'', oldValue = JNull, newValue = JNum 5\<rparr>]
     \<and> emitted (CodeCellModel_set_executionCount None
                  (fst (CodeCellModel_set_executionCount (Some 5) c)))
       = [\<lparr>name = ''executionCount'', oldValue = JNum 5, newValue = JNull\<rparr>]
     \<and> snd (CodeCellModel_ia_set_executionCount (Some 5) d)
       = [\<lparr>name = ''executionCount'', oldValue = Some JNull, newValue = Some (JNum 5)\<rparr>]
     \<and> snd (CodeCellModel_ia_set_executionCount None
              (fst (CodeCellModel_ia_set_executionCount (Some 5) d)))
       = [\<lparr>name = ''executionCount'', oldValue = Some (JNum 5), newValue = Some JNull\<rparr>]
     \<and> ia_prompt (cia_input (CodeCellModel_ia_new inp out)) = Some ''In [ ]:''
     \<and> cia_executionCount (CodeCellModel_ia_new inp out) = None
     \<and> ia_prompt (cia_input (fst (CodeCellModel_ia_set_executionCount (Some 5) d)))
       = Some ''In [5]:''
     \<and> ia_prompt (cia_input (fst (CodeCellModel_ia_set_executionCount None
                                    (fst (CodeCellModel_ia_set_executionCount (Some 5) d)))))
       = Some ''In [ ]:''"
  using assms
  by (simp add: CodeCellModel_set_executionCount_def emitted_def Let_def any_number_def
      CodeCellModel_ia_set_executionCount_def CodeCellModel_ia_assign_prompt_def
      CodeCellModel_ia_new_def InputAreaModel_set_prompt_def Property_changed_def
      BaseCellModel_ia_onInputChanged_def number_text_5)

theorem C9_witness:
  "c_executionCount (CodeCellModel_new None) = None
   \<and> cia_executionCount (CodeCellModel_ia_new InputAreaModel_new None) = None
   \<and> emitted (CodeCellModel_set_executionCount (Some 5) (CodeCellModel_new None))
       = [\<lparr>name = ''executionCount'', oldValue = JNull, newValue = JNum 5\<rparr>]
   \<and> snd (CodeCellModel_ia_set_executionCount (Some 5)
            (CodeCellModel_ia_new InputAreaModel_new None))
       = [\<lparr>name = ''executionCount'', oldValue = Some JNull, newValue = Some (JNum 5)\<rparr>]
   \<and> ia_prompt (cia_input (fst (CodeCellModel_ia_set_executionCount (Some 5)
                                  (CodeCellModel_ia_new InputAreaModel_new None))))
       = Some ''In [5]:''"
proof -
  have h1: "c_executionCount (CodeCellModel_new None) = None"
    by (simp add: CodeCellModel_new_def)
  have h2: "cia_executionCount (CodeCellModel_ia_new InputAreaModel_new None) = None"
    by (simp add: CodeCellModel_ia_new_def CodeCellModel_ia_assign_prompt_def Let_def)
  show ?thesis
    using h1 h2 C9_executionCount_toggle [OF h1 h2] by simp
qed

text \<open>
  C10. Assigning to \<^verbatim>\<open>trusted\<close> of a code cell a value \<open>b\<close> other than the current
  one sets the trusted flag of the owned output collection to \<open>b\<close> before the change
  record is emitted: the sender delivered with the record already has the flag. For
  markdown and raw cells the hook \<^verbatim>\<open>onTrustChanged\<close> does nothing, and the setter
  changes the cell's own flag only.
\<close>

theorem C10_trust_reaches_outputs_before_emission:
  assumes "b \<noteq> c_trusted c" and "c_output c = Some out"
  shows "(\<exists>c'. CodeCellModel_set_trusted b c
              = Inr (c', [(c', \<lparr>name = ''trusted'', oldValue = JBool (c_trusted c),
                                newValue = JBool b\<rparr>)])
            \<and> c_trusted c' = b
            \<and> c_output c' = Some (out\<lparr>oa_trusted := b\<rparr>))
         \<and> BaseCellModel_onTrustChanged b m = Inr m
         \<and> MarkdownCellModel_set_trusted b md
            = (if b = c_trusted md then Inr (md, [])
               else Inr (md\<lparr>c_trusted := b\<rparr>,
                         [(md\<lparr>c_trusted := b\<rparr>,
                           \<lparr>name = ''trusted'', oldValue = JBool (c_trusted md),
                            newValue = JBool b\<rparr>)]))
         \<and> RawCellModel_set_trusted b rw
            = (if b = c_trusted rw then Inr (rw, [])
               else Inr (rw\<lparr>c_trusted := b\<rparr>,
                         [(rw\<lparr>c_trusted := b\<rparr>,
                           \<lparr>name = ''trusted'', oldValue = JBool (c_trusted rw),
                            newValue = JBool b\<rparr>)]))"
  using assms
  by (simp add: CodeCellModel_set_trusted_result [OF assms(2)] BaseCellModel_onTrustChanged_def
      MarkdownCellModel_set_trusted_def RawCellModel_set_trusted_def BaseCellModel_set_trusted_def
      then_do_def Let_def)

theorem C10_witness:
  "True \<noteq> c_trusted (CodeCellModel_new (Some OutputAreaModel_new))
   \<and> c_output (CodeCellModel_new (Some OutputAreaModel_new)) = Some OutputAreaModel_new
   \<and> (\<exists>c'. CodeCellModel_set_trusted True (CodeCellModel_new (Some OutputAreaModel_new))
              = Inr (c', [(c', \<lparr>name = ''trusted'', oldValue = JBool False,
                                newValue = JBool True\<rparr>)])
          \<and> map_option oa_trusted (c_output c') = Some True)"
proof -
  have h1: "True \<noteq> c_trusted (CodeCellModel_new (Some OutputAreaModel_new))"
    by (simp add: CodeCellModel_new_def)
  have h2: "c_output (CodeCellModel_new (Some OutputAreaModel_new)) = Some OutputAreaModel_new"
    by (simp add: CodeCellModel_new_def)
  have h3: "c_trusted (CodeCellModel_new (Some OutputAreaModel_new)) = False"
    by (simp add: CodeCellModel_new_def)
  show ?thesis
    using h1 h2 C10_trust_reaches_outputs_before_emission [OF h1 h2,
        where m = MarkdownCellModel_new and md = MarkdownCellModel_new and rw = RawCellModel_new]
    by (auto simp: h3)
qed

end
